theory Spec2Isabelle
  imports Complex_Main "HOL-Library.AList"
begin

section \<open>Container Insights helpers (internal/aws/containerinsight/utils.go)\<close>

subsection \<open>SumFields\<close>

text \<open>
  A value of Go's \<^verbatim>\<open>any\<close> as \<^verbatim>\<open>SumFields\<close> tells its cases apart: the nil
  interface, a \<^verbatim>\<open>float64\<close>, or a value of another dynamic type. The type of
  \<^verbatim>\<open>float64\<close> values is the parameter \<open>'f\<close>; the function only adds them, in
  the order of the list, so nothing about the addition is assumed.
\<close>

datatype 'f any = AnyNil | AnyFloat64 'f | AnyInt int | AnyString string

type_synonym 'f fields = "string \<rightharpoonup> 'f any"

text \<open>
  The first loop: \<^verbatim>\<open>for k, v := range fields[0] { if fv, ok := v.(float64); ok { result[k] = fv } }\<close>.
\<close>

definition baseFields :: "'f fields \<Rightarrow> (string \<rightharpoonup> 'f)" where
  "baseFields m = (\<lambda>k. case m k of Some (AnyFloat64 fv) \<Rightarrow> Some fv | _ \<Rightarrow> None)"

text \<open>
  One round of the outer loop, for the map \<open>m = fields[i]\<close>:
  \<^verbatim>\<open>for k, v := range result { if fields[i][k] == nil { continue }; if fv, ok := fields[i][k].(float64); ok { result[k] = v + fv } }\<close>.
  Every iteration reads and writes the entry of its own key only and no key is added or
  removed, so the order in which Go visits the keys does not show and the round is the
  update of each entry of \<open>result\<close>. A key that \<open>m\<close> lacks reads as the nil interface.
\<close>

definition addFields :: "(string \<rightharpoonup> 'f::plus) \<Rightarrow> 'f fields \<Rightarrow> (string \<rightharpoonup> 'f)" where
  "addFields result m =
     (\<lambda>k. case result k of
            None \<Rightarrow> None
          | Some v \<Rightarrow>
              (case m k of
                 None \<Rightarrow> Some v
               | Some AnyNil \<Rightarrow> Some v
               | Some (AnyFloat64 fv) \<Rightarrow> Some (v + fv)
               | Some _ \<Rightarrow> Some v))"

text \<open>The nil map that Go returns for an empty slice is \<open>None\<close>.\<close>

fun SumFields :: "'f::plus fields list \<Rightarrow> (string \<rightharpoonup> 'f) option" where
  "SumFields [] = None"
| "SumFields [f0] = Some (baseFields f0)"
| "SumFields (f0 # rest) = Some (foldl addFields (baseFields f0) rest)"

text \<open>
  The \<^verbatim>\<open>float64\<close> values that the maps of a list hold under one key, in the order of
  the list: what the claim's sum ranges over.
\<close>

fun float64At :: "string \<Rightarrow> 'f fields \<Rightarrow> 'f option" where
  "float64At k m = (case m k of Some (AnyFloat64 fv) \<Rightarrow> Some fv | _ \<Rightarrow> None)"

definition float64sAt :: "string \<Rightarrow> 'f fields list \<Rightarrow> 'f list" where
  "float64sAt k fs = List.map_filter (float64At k) fs"

subsection \<open>Metric name prefixes\<close>

text \<open>
  The metric type constants (\<^verbatim>\<open>TypeNode\<close>, \<^verbatim>\<open>TypePod\<close>, ...) are declared in a
  file of the package that is not among the sources. Their names are the constructors
  below, and their string values are a parameter \<open>C\<close> of every function that reads them.
\<close>

datatype metricTypeConst =
    TypeInstance | TypeInstanceFS | TypeInstanceDiskIO | TypeInstanceNet
  | TypeNode | TypeNodeFS | TypeNodeDiskIO | TypeNodeNet | TypeNodeEFA
  | TypePod | TypePodGPU | TypePodNet | TypePodEFA
  | TypeContainer | TypeContainerDiskIO | TypeContainerFS | TypeContainerEFA
  | TypeService | TypeCluster | TypeClusterService | TypeClusterNamespace
  | TypeClusterDeployment | TypeClusterDaemonSet | TypeClusterStatefulSet
  | TypeClusterReplicaSet | TypeHyperPodNode
  | TypePersistentVolumeClaim | TypePersistentVolume

text \<open>The cases of the switch of \<^verbatim>\<open>getPrefixByMetricType\<close>, in the order of the source.\<close>

definition prefixCases :: "(metricTypeConst \<times> string) list" where
  "prefixCases =
    [(TypeInstance, ''instance_''),
     (TypeInstanceFS, ''instance_''),
     (TypeInstanceDiskIO, ''instance_''),
     (TypeInstanceNet, ''instance_interface_''),
     (TypeNode, ''node_''),
     (TypeNodeFS, ''node_''),
     (TypeNodeDiskIO, ''node_''),
     (TypeNodeNet, ''node_interface_''),
     (TypeNodeEFA, ''node_efa_''),
     (TypePod, ''pod_''),
     (TypePodGPU, ''pod_''),
     (TypePodNet, ''pod_interface_''),
     (TypePodEFA, ''pod_efa_''),
     (TypeContainer, ''container_''),
     (TypeContainerDiskIO, ''container_''),
     (TypeContainerFS, ''container_''),
     (TypeContainerEFA, ''container_efa_''),
     (TypeService, ''service_''),
     (TypeCluster, ''cluster_''),
     (TypeClusterService, ''service_''),
     (TypeClusterNamespace, ''namespace_''),
     (TypeClusterDeployment, ''deployment_''),
     (TypeClusterDaemonSet, ''daemonset_''),
     (TypeClusterStatefulSet, ''statefulset_''),
     (TypeClusterReplicaSet, ''replicaset_''),
     (TypeHyperPodNode, ''hyperpod_node_health_status_''),
     (TypePersistentVolumeClaim, ''persistent_volume_claim_''),
     (TypePersistentVolume, ''persistent_volume_'')]"

text \<open>
  The switch takes the first case whose constant equals \<open>mType\<close>; the default case logs
  and leaves the prefix empty.
\<close>

definition getPrefixByMetricType :: "(metricTypeConst \<Rightarrow> string) \<Rightarrow> string \<Rightarrow> string" where
  "getPrefixByMetricType C mType =
     (case find (\<lambda>(c, p). C c = mType) prefixCases of
        Some (c, p) \<Rightarrow> p
      | None \<Rightarrow> '''')"

definition MetricName :: "(metricTypeConst \<Rightarrow> string) \<Rightarrow> string \<Rightarrow> string \<Rightarrow> string" where
  "MetricName C mType measurement = getPrefixByMetricType C mType @ measurement"

text \<open>
  Go's \<^verbatim>\<open>strings.Index(s, old)\<close>: the byte offset of the first occurrence of \<open>old\<close>
  in \<open>s\<close>, \<open>None\<close> for Go's \<open>-1\<close>. The empty string occurs at offset 0.
\<close>

fun Index :: "string \<Rightarrow> string \<Rightarrow> nat option" where
  "Index [] old = (if old = [] then Some 0 else None)"
| "Index (c # s) old =
     (if take (length old) (c # s) = old then Some 0 else map_option Suc (Index s old))"

text \<open>
  Go's \<^verbatim>\<open>strings.Replace(s, old, new, 1)\<close>: \<open>s\<close> itself when \<open>old = new\<close> or
  \<open>old\<close> does not occur, and otherwise \<open>s\<close> with its first occurrence of \<open>old\<close>
  replaced by \<open>new\<close>.
\<close>

definition Replace1 :: "string \<Rightarrow> string \<Rightarrow> string \<Rightarrow> string" where
  "Replace1 s old new =
     (if old = new then s
      else case Index s old of
             None \<Rightarrow> s
           | Some j \<Rightarrow> take j s @ new @ drop (j + length old) s)"

definition RemovePrefix :: "(metricTypeConst \<Rightarrow> string) \<Rightarrow> string \<Rightarrow> string \<Rightarrow> string" where
  "RemovePrefix C mType metricName = Replace1 metricName (getPrefixByMetricType C mType) ''''"

section \<open>EMF exporter: destinations, pushers and push (exporter/awsemfexporter)\<close>

text \<open>
  The mock pusher and the scenarios below are translated from the test file of the
  package. The exporter functions that the tests call are written from the specification,
  each marked so.
\<close>

subsection \<open>Data\<close>

text \<open>
  \<^verbatim>\<open>cwlogs.StreamKey\<close>, the key of \<^verbatim>\<open>pusherMap\<close>, with the two fields the tests
  fill in.
\<close>

record StreamKey =
  LogGroupName :: string
  LogStreamName :: string

text \<open>
  The fields of \<^verbatim>\<open>Config\<close> that the tests set and a push reads. The two destination
  names are templates; they carry the prefix \<open>Config\<close> here because a stream key has
  fields of the same names.
\<close>

record Config =
  Region :: string
  MaxRetries :: nat
  ConfigLogGroupName :: string
  ConfigLogStreamName :: string
  OutputDestination :: string

datatype ResolutionError = UnknownPlaceholder string | MissingAttribute string

text \<open>
  The errors that contribute to the result of a push: the request failure with its status
  code that a pusher reports (\<^verbatim>\<open>awserr.NewRequestFailure(nil, 400, "")\<close> in the
  mock), the resolution error of a group, and a panic.
\<close>

datatype error =
    RequestFailure int
  | ResolutionFailed ResolutionError
  | Panic string

text \<open>
  \<^verbatim>\<open>cwlogs.Pusher\<close> is an interface with the methods \<^verbatim>\<open>AddLogEntry\<close> and
  \<^verbatim>\<open>ForceFlush\<close>, each returning an error or nil; the mock of the test file implements
  it. A pusher is a value of a type \<open>'p\<close> that a method returns updated. The record adds
  the constructor that the exporter calls for a key it has no pusher for, with the key and
  the retry count.
\<close>

record 'p PusherOps =
  NewPusher :: "StreamKey \<Rightarrow> nat \<Rightarrow> 'p"
  AddLogEntry :: "'p \<Rightarrow> string \<Rightarrow> error option \<times> 'p"
  ForceFlush :: "'p \<Rightarrow> error option \<times> 'p"

text \<open>
  The exporter: its configuration, the pusher registry as the list of its entries in the
  order of their creation (\<^verbatim>\<open>exp.pusherMap\<close> of the tests), and the lines written to
  the standard output.
\<close>

record 'p emfExporter =
  config :: Config
  pusherMap :: "(StreamKey \<times> 'p) list"
  stdout :: "string list"

text \<open>
  One resource of a metrics batch: its resource attributes
  (\<^verbatim>\<open>resourceAttributeMap\<close> of the tests) and the EMF log events that the translation
  of its metrics gives. The specification takes the translation as a function supplied
  to the push; the events stand for its result.
\<close>

record resourceMetrics =
  attributes :: "(string \<times> string) list"
  logEvents :: "string list"

subsection \<open>The mock pusher of the test file\<close>

text \<open>
  \<^verbatim>\<open>mockPusher\<close> embeds testify's \<^verbatim>\<open>mock.Mock\<close>. An expectation
  \<^verbatim>\<open>On(name, nil).Return(s).Once()\<close> (or \<^verbatim>\<open>Twice()\<close>) is testify's
  \<^verbatim>\<open>Call\<close>: the name of the method, the string to return and the number of calls it
  still answers.
\<close>

record expectation =
  Method :: string
  ReturnArguments :: string
  Repeatability :: nat

type_synonym mockPusher = "expectation list"

text \<open>
  \<^verbatim>\<open>p.Called(nil)\<close> inside a method: the first expectation of the method, in the order
  of the \<^verbatim>\<open>On\<close> calls, that has a call left answers and loses one call. With none
  left testify panics: \<open>None\<close>.
\<close>

fun Called :: "string \<Rightarrow> mockPusher \<Rightarrow> (string \<times> mockPusher) option" where
  "Called m [] = None"
| "Called m (e # es) =
     (if Method e = m \<and> 0 < Repeatability e
      then Some (ReturnArguments e, e\<lparr>Repeatability := Repeatability e - 1\<rparr> # es)
      else map_option (\<lambda>(r, es'). (r, e # es')) (Called m es))"

text \<open>
  \<^verbatim>\<open>func (p *mockPusher) AddLogEntry(_ *cwlogs.Event) error\<close> and
  \<^verbatim>\<open>func (p *mockPusher) ForceFlush() error\<close>: a non-empty returned string makes the
  request failure with status 400, the empty string nil.
\<close>

definition mockAnswer :: "string \<Rightarrow> mockPusher \<Rightarrow> error option \<times> mockPusher" where
  "mockAnswer m p =
     (case Called m p of
        None \<Rightarrow> (Some (Panic m), p)
      | Some (errorStr, p') \<Rightarrow>
          (if errorStr \<noteq> [] then Some (RequestFailure 400) else None, p'))"

definition mockAddLogEntry :: "mockPusher \<Rightarrow> string \<Rightarrow> error option \<times> mockPusher" where
  "mockAddLogEntry p ev = mockAnswer ''AddLogEntry'' p"

definition mockForceFlush :: "mockPusher \<Rightarrow> error option \<times> mockPusher" where
  "mockForceFlush p = mockAnswer ''ForceFlush'' p"

text \<open>
  The mock as a pusher. No test lets the exporter construct a mock; a constructed one has
  no expectation.
\<close>

definition mockOps :: "mockPusher PusherOps" where
  "mockOps = \<lparr>NewPusher = (\<lambda>key retryCnt. []),
              AddLogEntry = mockAddLogEntry,
              ForceFlush = mockForceFlush\<rparr>"

subsection \<open>Destination resolver\<close>

text \<open>
  Modelled from the spec: the resolver of the exporter is not among the sources. Section
  4.1: it scans a template for \<open>{Name}\<close> tokens and looks each name up in a fixed mapping
  from placeholder names to attribute keys; an unrecognized placeholder is a resolution
  error, an attribute that the batch lacks is a missing-attribute error, and a template
  without a token is used verbatim. The mapping \<open>tbl\<close> is a parameter: the specification
  does not list it. \<open>tok\<close> is the token being read, if the scan is inside braces; an
  opening brace that is never closed is kept as text.
\<close>

fun expand ::
  "(string \<times> string) list \<Rightarrow> (string \<times> string) list \<Rightarrow> string option \<Rightarrow> string \<Rightarrow>
   ResolutionError + string" where
  "expand tbl attrs None [] = Inr []"
| "expand tbl attrs (Some tok) [] = Inr (CHR ''{'' # tok)"
| "expand tbl attrs None (c # cs) =
     (if c = CHR ''{'' then expand tbl attrs (Some []) cs
      else map_sum id ((#) c) (expand tbl attrs None cs))"
| "expand tbl attrs (Some tok) (c # cs) =
     (if c = CHR ''}'' then
        (case map_of tbl tok of
           None \<Rightarrow> Inl (UnknownPlaceholder tok)
         | Some key \<Rightarrow>
             (case map_of attrs key of
                None \<Rightarrow> Inl (MissingAttribute tok)
              | Some v \<Rightarrow> map_sum id ((@) v) (expand tbl attrs None cs)))
      else expand tbl attrs (Some (tok @ [c])) cs)"

text \<open>
  Modelled from the spec: \<open>resolve(template_group, template_stream, attributes)\<close> of
  section 4.1, a destination key or a resolution error.
\<close>

definition resolve ::
  "(string \<times> string) list \<Rightarrow> Config \<Rightarrow> (string \<times> string) list \<Rightarrow> ResolutionError + StreamKey" where
  "resolve tbl cfg attrs =
     (case expand tbl attrs None (ConfigLogGroupName cfg) of
        Inl e \<Rightarrow> Inl e
      | Inr g \<Rightarrow>
          (case expand tbl attrs None (ConfigLogStreamName cfg) of
             Inl e \<Rightarrow> Inl e
           | Inr s \<Rightarrow> Inr \<lparr>LogGroupName = g, LogStreamName = s\<rparr>))"

subsection \<open>Pusher registry\<close>

text \<open>
  Modelled from the spec: \<^verbatim>\<open>newEmfExporter\<close> is not among the sources. A new exporter
  has no pusher (section 4.2: pushers are created on first use).
\<close>

definition newEmfExporter :: "Config \<Rightarrow> 'p emfExporter" where
  "newEmfExporter cfg = \<lparr>config = cfg, pusherMap = [], stdout = []\<rparr>"

text \<open>
  Modelled from the spec: \<open>getOrCreate(key)\<close> of section 4.2 (\<^verbatim>\<open>getPusher\<close> of the
  exporter, not among the sources). The pusher registered for the key, or a new one that
  is registered under it.
\<close>

definition getPusher :: "'p PusherOps \<Rightarrow> StreamKey \<Rightarrow> 'p emfExporter \<Rightarrow> 'p \<times> 'p emfExporter" where
  "getPusher ops key emf =
     (case map_of (pusherMap emf) key of
        Some p \<Rightarrow> (p, emf)
      | None \<Rightarrow>
          (let p = NewPusher ops key (MaxRetries (config emf))
           in (p, emf\<lparr>pusherMap := pusherMap emf @ [(key, p)]\<rparr>)))"

text \<open>
  A pusher is an object shared through the registry: what a method does to it is written
  back under its key.
\<close>

definition storePusher :: "StreamKey \<Rightarrow> 'p \<Rightarrow> 'p emfExporter \<Rightarrow> 'p emfExporter" where
  "storePusher key p emf = emf\<lparr>pusherMap := AList.update key p (pusherMap emf)\<rparr>"

text \<open>The keys under which the registry holds a pusher, in the order of the registry.\<close>

definition registeredKeys :: "'p emfExporter \<Rightarrow> StreamKey list" where
  "registeredKeys emf = map fst (pusherMap emf)"

subsection \<open>Push\<close>

text \<open>
  A panic inside a pusher does not return: it unwinds the push. It is the error value
  \<open>Panic\<close>, after which a push does nothing more.
\<close>

fun isPanic :: "error \<Rightarrow> bool" where
  "isPanic (Panic s) = True"
| "isPanic e = False"

text \<open>
  Modelled from the spec: section 4.6, the orchestrator "feeds it all EMF events for that
  group", the pusher being \<open>p\<close>, and (section 7) "never swallows a per-group error": every
  error that \<^verbatim>\<open>AddLogEntry\<close> returns is kept, in the order of the events, and the
  events after a failed one are fed as well.
\<close>

fun feedEvents :: "'p PusherOps \<Rightarrow> 'p \<Rightarrow> string list \<Rightarrow> error list \<times> 'p" where
  "feedEvents ops p [] = ([], p)"
| "feedEvents ops p (ev # evs) =
     (let (r, p') = AddLogEntry ops p ev
      in case r of
           None \<Rightarrow> feedEvents ops p' evs
         | Some e \<Rightarrow>
             (if isPanic e then ([e], p')
              else let (es, p'') = feedEvents ops p' evs in (e # es, p'')))"

text \<open>
  Modelled from the spec: one group of section 4.6, with the errors it contributes. A
  resource without a log event makes no group. A group whose destination does not resolve
  records the resolution error and ships nothing; its pusher is registered under the
  unsubstituted names of the configuration (section 8, and
  \<^verbatim>\<open>TestConsumeMetricsWithWrongPlaceholder\<close>, which finds a pusher under the key with
  the stream name \<open>{WrongKey}\<close>). A resolved group obtains the pusher of its key and feeds
  it the events of the group.
\<close>

definition pushGroup ::
  "'p PusherOps \<Rightarrow> (string \<times> string) list \<Rightarrow> resourceMetrics \<Rightarrow> 'p emfExporter \<Rightarrow>
   error list \<times> 'p emfExporter" where
  "pushGroup ops tbl rm emf =
     (if logEvents rm = [] then ([], emf)
      else case resolve tbl (config emf) (attributes rm) of
             Inl e \<Rightarrow>
               ([ResolutionFailed e],
                snd (getPusher ops
                      \<lparr>LogGroupName = ConfigLogGroupName (config emf),
                       LogStreamName = ConfigLogStreamName (config emf)\<rparr> emf))
           | Inr key \<Rightarrow>
               (let (p, emf1) = getPusher ops key emf;
                    (es, p') = feedEvents ops p (logEvents rm)
                in (es, storePusher key p' emf1)))"

text \<open>
  Modelled from the spec: section 4.6, "for each unresolved group, record a resolution
  error but continue processing resolvable groups", and section 7, the orchestrator
  "aggregates into one combined error". The groups are pushed in the order of the batch
  and the errors of all of them are collected; only a panic ends the push.
\<close>

fun pushGroups ::
  "'p PusherOps \<Rightarrow> (string \<times> string) list \<Rightarrow> resourceMetrics list \<Rightarrow> 'p emfExporter \<Rightarrow>
   error list \<times> 'p emfExporter" where
  "pushGroups ops tbl [] emf = ([], emf)"
| "pushGroups ops tbl (rm # rms) emf =
     (let (es, emf1) = pushGroup ops tbl rm emf
      in if list_ex isPanic es then (es, emf1)
         else let (es', emf2) = pushGroups ops tbl rms emf1 in (es @ es', emf2))"

text \<open>
  Modelled from the spec: \<open>push(batch)\<close> of section 4.6 (\<^verbatim>\<open>pushMetricsData\<close> of the
  exporter, not among the sources). With the output destination \<open>stdout\<close> the EMF lines
  are written out and no pusher is used (section 6). Otherwise the groups are pushed. The
  result is the combined error of the call as the list of the errors that contribute to
  it: the empty list is nil, the call without an error. A push does not flush: sections 2
  and 4.2 put the forced flush at shutdown. The classification of the combined error as
  permanent or transient (section 4.4) is left out; it does not change whether a push
  returns an error.
\<close>

definition pushMetricsData ::
  "'p PusherOps \<Rightarrow> (string \<times> string) list \<Rightarrow> resourceMetrics list \<Rightarrow> 'p emfExporter \<Rightarrow>
   error list \<times> 'p emfExporter" where
  "pushMetricsData ops tbl md emf =
     (if OutputDestination (config emf) = ''stdout''
      then ([], emf\<lparr>stdout := stdout emf @ concat (map logEvents md)\<rparr>)
      else pushGroups ops tbl md emf)"


subsection \<open>A mock pusher that fails once\<close>




section \<open>Properties of the Container Insights helpers\<close>

lemma dom_baseFields: "dom (baseFields m) = {k. \<exists>v. m k = Some (AnyFloat64 v)}"
  by (auto simp: baseFields_def split: option.splits any.splits)

lemma dom_addFields: "dom (addFields r m) = dom r"
  by (auto simp: addFields_def split: option.splits any.splits)

lemma dom_foldl_addFields: "dom (foldl addFields r ms) = dom r"
  by (induction ms arbitrary: r) (simp_all add: dom_addFields)

lemma addFields_Some:
  "r k = Some v \<Longrightarrow>
   addFields r m k = Some (case float64At k m of None \<Rightarrow> v | Some fv \<Rightarrow> v + fv)"
  by (simp add: addFields_def split: option.splits any.splits)

lemma foldl_addFields_Some:
  "r k = Some v \<Longrightarrow> foldl addFields r ms k = Some (foldl (+) v (float64sAt k ms))"
proof (induction ms arbitrary: r v)
  case Nil
  then show ?case by (simp add: float64sAt_def)
next
  case (Cons m ms)
  let ?v' = "case float64At k m of None \<Rightarrow> v | Some fv \<Rightarrow> v + fv"
  have step: "addFields r m k = Some ?v'"
    using Cons.prems by (rule addFields_Some)
  have "foldl addFields (addFields r m) ms k = Some (foldl (+) ?v' (float64sAt k ms))"
    using step by (rule Cons.IH)
  moreover have "foldl (+) ?v' (float64sAt k ms) = foldl (+) v (float64sAt k (m # ms))"
    by (cases "float64At k m") (simp_all add: float64sAt_def)
  ultimately show ?case by simp
qed

lemma SumFields_Cons: "SumFields (f0 # rest) = Some (foldl addFields (baseFields f0) rest)"
  by (cases rest) simp_all

lemma baseFields_Some: "f0 k = Some (AnyFloat64 v) \<Longrightarrow> baseFields f0 k = Some v"
  by (simp add: baseFields_def)

text \<open>
  C9. \<^verbatim>\<open>SumFields\<close> returns nil for an empty list. For a list \<open>f0 # rest\<close> it returns
  a map whose keys are exactly the keys of \<open>f0\<close> with a \<^verbatim>\<open>float64\<close> value, and the
  value under such a key is the value in \<open>f0\<close> plus, from left to right, the
  \<^verbatim>\<open>float64\<close> values that the later maps hold under the key. A key that only a later
  map has is not a key of the result, and a nil or non-\<^verbatim>\<open>float64\<close> value of a later
  map adds nothing, since \<open>float64sAt\<close> leaves it out.
\<close>

theorem SumFields_sums_first_map_keys:
  fixes f0 :: "('f::plus) fields"
  shows "SumFields ([] :: 'f fields list) = None \<and>
         (\<exists>r. SumFields (f0 # rest) = Some r \<and>
              dom r = {k. \<exists>v. f0 k = Some (AnyFloat64 v)} \<and>
              (\<forall>k v. f0 k = Some (AnyFloat64 v) \<longrightarrow>
                     r k = Some (foldl (+) v (float64sAt k rest))))"
proof -
  let ?r = "foldl addFields (baseFields f0) rest"
  have "SumFields (f0 # rest) = Some ?r"
    by (rule SumFields_Cons)
  moreover have "dom ?r = {k. \<exists>v. f0 k = Some (AnyFloat64 v)}"
    by (simp add: dom_foldl_addFields dom_baseFields)
  moreover have "\<forall>k v. f0 k = Some (AnyFloat64 v) \<longrightarrow>
                       ?r k = Some (foldl (+) v (float64sAt k rest))"
    by (simp add: baseFields_Some foldl_addFields_Some)
  ultimately show ?thesis by simp
qed

theorem SumFields_sums_first_map_keys_witness:
  "SumFields ([] :: real fields list) = None \<and>
   (\<exists>r. SumFields
          [[''cpu'' \<mapsto> AnyFloat64 (3 / 2), ''name'' \<mapsto> AnyString ''a''],
           [''cpu'' \<mapsto> AnyFloat64 2, ''mem'' \<mapsto> AnyFloat64 7],
           [''cpu'' \<mapsto> AnyNil],
           [''cpu'' \<mapsto> AnyFloat64 (1 / 4), ''name'' \<mapsto> AnyFloat64 1]] = Some r \<and>
        dom r = {''cpu''} \<and> r ''cpu'' = Some (15 / 4 :: real) \<and>
        r ''mem'' = None \<and> r ''name'' = None)"
proof -
  let ?f0 = "[''cpu'' \<mapsto> AnyFloat64 (3 / 2 :: real), ''name'' \<mapsto> AnyString ''a'']"
  let ?rest = "[[''cpu'' \<mapsto> AnyFloat64 (2 :: real), ''mem'' \<mapsto> AnyFloat64 7],
                [''cpu'' \<mapsto> AnyNil],
                [''cpu'' \<mapsto> AnyFloat64 (1 / 4), ''name'' \<mapsto> AnyFloat64 1]]"
  from SumFields_sums_first_map_keys [of ?f0 ?rest]
  obtain r where r: "SumFields (?f0 # ?rest) = Some r"
    and d: "dom r = {k. \<exists>v. ?f0 k = Some (AnyFloat64 v)}"
    and v: "\<forall>k v. ?f0 k = Some (AnyFloat64 v) \<longrightarrow>
                   r k = Some (foldl (+) v (float64sAt k ?rest))"
    and e: "SumFields ([] :: real fields list) = None"
    by blast
  have keys: "{k. \<exists>v. ?f0 k = Some (AnyFloat64 v)} = {''cpu''}"
    by (auto intro: exI [of _ "3 / 2"])
  have "r ''cpu'' = Some (foldl (+) (3 / 2) (float64sAt ''cpu'' ?rest))"
    using v by simp
  then have cpu: "r ''cpu'' = Some (15 / 4)"
    by (simp add: float64sAt_def)
  have "''mem'' \<notin> dom r" and "''name'' \<notin> dom r"
    using d keys by simp_all
  then have "r ''mem'' = None" and "r ''name'' = None"
    by (simp_all add: domIff)
  with r d keys cpu e show ?thesis by simp
qed

lemma Index_append_self: "Index (p @ m) p = Some 0"
proof (cases "p @ m")
  case Nil
  then show ?thesis by simp
next
  case (Cons c s)
  have "take (length p) (p @ m) = p"
    by simp
  then have "take (length p) (c # s) = p"
    unfolding Cons .
  then show ?thesis
    unfolding Cons by simp
qed

text \<open>
  C10. For every metric type string and every measurement string, removing the type's
  prefix from the metric name built with it gives the measurement back. This holds for
  every value of the type constants, and also for a type that no case of the switch names,
  whose prefix is empty.
\<close>

theorem RemovePrefix_MetricName:
  "RemovePrefix C mType (MetricName C mType m) = m"
  by (simp add: RemovePrefix_def MetricName_def Replace1_def Index_append_self)

section \<open>Properties of the exporter's push\<close>

subsection \<open>The registry after one step\<close>

lemma registeredKeys_getPusher:
  "registeredKeys (snd (getPusher ops key emf)) =
     (if key \<in> set (registeredKeys emf) then registeredKeys emf else registeredKeys emf @ [key])"
proof (cases "map_of (pusherMap emf) key")
  case None
  then have "key \<notin> set (registeredKeys emf)"
    by (simp add: registeredKeys_def map_of_eq_None_iff)
  then show ?thesis
    using None by (simp add: getPusher_def registeredKeys_def Let_def)
next
  case (Some p)
  then have "key \<in> set (registeredKeys emf)"
    unfolding registeredKeys_def by (metis map_of_eq_None_iff option.distinct(1) set_map)
  then show ?thesis
    using Some by (simp add: getPusher_def)
qed

lemma registeredKeys_storePusher:
  "key \<in> set (registeredKeys emf) \<Longrightarrow> registeredKeys (storePusher key p emf) = registeredKeys emf"
  by (simp add: storePusher_def registeredKeys_def update_keys)

lemma registeredKeys_store_getPusher:
  "registeredKeys (storePusher key p (snd (getPusher ops key emf))) =
     (if key \<in> set (registeredKeys emf) then registeredKeys emf else registeredKeys emf @ [key])"
proof -
  have "key \<in> set (registeredKeys (snd (getPusher ops key emf)))"
    by (simp add: registeredKeys_getPusher)
  then show ?thesis
    by (simp add: registeredKeys_storePusher registeredKeys_getPusher)
qed




lemma pushGroups_single: "pushGroups ops tbl [rm] emf = pushGroup ops tbl rm emf"
  by (cases "pushGroup ops tbl rm emf") simp

lemma pushGroup_resolved:
  assumes "logEvents rm \<noteq> []"
    and "resolve tbl (config emf) (attributes rm) = Inr key"
  shows "snd (pushGroup ops tbl rm emf) =
           storePusher key (snd (feedEvents ops (fst (getPusher ops key emf)) (logEvents rm)))
             (snd (getPusher ops key emf))"
  using assms by (simp add: pushGroup_def split_beta)

subsection \<open>Resolution of the templates of the ECS scenario\<close>

lemma expand_ClusterName:
  assumes "map_of tbl ''ClusterName'' = Some ''aws.ecs.cluster.name''"
    and "map_of attrs ''aws.ecs.cluster.name'' = Some ''test-cluster-name''"
  shows "expand tbl attrs None ''/aws/ecs/containerinsights/{ClusterName}/performance'' =
           Inr ''/aws/ecs/containerinsights/test-cluster-name/performance''"
  using assms by simp

lemma expand_TaskId:
  assumes "map_of tbl ''TaskId'' = Some ''aws.ecs.task.id''"
    and "map_of attrs ''aws.ecs.task.id'' = Some ''test-task-id''"
  shows "expand tbl attrs None ''{TaskId}'' = Inr ''test-task-id''"
  using assms by simp

text \<open>
  C3. Let the mapping of placeholders send \<open>ClusterName\<close> to the attribute
  \<open>aws.ecs.cluster.name\<close> and \<open>TaskId\<close> to \<open>aws.ecs.task.id\<close>, as the attribute names of
  \<^verbatim>\<open>TestConsumeMetricsWithLogGroupStreamValidPlaceholder\<close> have it, and let the
  configuration name the log group \<open>/aws/ecs/containerinsights/{ClusterName}/performance\<close>
  and the log stream \<open>{TaskId}\<close>, with the ingestion service as output destination. For a
  resource with the cluster name \<open>test-cluster-name\<close> and the task id \<open>test-task-id\<close>
  the destination resolves to the key of the log group
  \<open>/aws/ecs/containerinsights/test-cluster-name/performance\<close> and the log stream
  \<open>test-task-id\<close>. After the push of a batch of this resource, with at least one log
  event and whatever the pusher answers, the registry holds the keys it held before and
  this key, once: on a new exporter, exactly this key.
\<close>

theorem push_registers_resolved_key:
  assumes "map_of tbl ''ClusterName'' = Some ''aws.ecs.cluster.name''"
    and "map_of tbl ''TaskId'' = Some ''aws.ecs.task.id''"
    and "map_of (attributes rm) ''aws.ecs.cluster.name'' = Some ''test-cluster-name''"
    and "map_of (attributes rm) ''aws.ecs.task.id'' = Some ''test-task-id''"
    and "ConfigLogGroupName (config emf) = ''/aws/ecs/containerinsights/{ClusterName}/performance''"
    and "ConfigLogStreamName (config emf) = ''{TaskId}''"
    and "OutputDestination (config emf) = ''cloudwatch''"
    and "logEvents rm \<noteq> []"
  shows "resolve tbl (config emf) (attributes rm) =
           Inr \<lparr>LogGroupName = ''/aws/ecs/containerinsights/test-cluster-name/performance'',
                LogStreamName = ''test-task-id''\<rparr> \<and>
         registeredKeys (snd (pushMetricsData ops tbl [rm] emf)) =
           (if \<lparr>LogGroupName = ''/aws/ecs/containerinsights/test-cluster-name/performance'',
                 LogStreamName = ''test-task-id''\<rparr> \<in> set (registeredKeys emf)
            then registeredKeys emf
            else registeredKeys emf @
                 [\<lparr>LogGroupName = ''/aws/ecs/containerinsights/test-cluster-name/performance'',
                   LogStreamName = ''test-task-id''\<rparr>])"
proof -
  let ?key = "\<lparr>LogGroupName = ''/aws/ecs/containerinsights/test-cluster-name/performance'',
               LogStreamName = ''test-task-id''\<rparr>"
  have res: "resolve tbl (config emf) (attributes rm) = Inr ?key"
    using assms(1-6) by (simp add: resolve_def expand_ClusterName expand_TaskId)
  have "snd (pushMetricsData ops tbl [rm] emf) = snd (pushGroup ops tbl rm emf)"
    using assms(7) by (simp add: pushMetricsData_def pushGroups_single del: pushGroups.simps)
  also have "\<dots> = storePusher ?key
                     (snd (feedEvents ops (fst (getPusher ops ?key emf)) (logEvents rm)))
                     (snd (getPusher ops ?key emf))"
    using assms(8) res by (rule pushGroup_resolved)
  finally have "registeredKeys (snd (pushMetricsData ops tbl [rm] emf)) =
     (if ?key \<in> set (registeredKeys emf) then registeredKeys emf
      else registeredKeys emf @ [?key])"
    by (simp only: registeredKeys_store_getPusher)
  with res show ?thesis by simp
qed

theorem push_registers_resolved_key_witness:
  "resolve [(''ClusterName'', ''aws.ecs.cluster.name''), (''TaskId'', ''aws.ecs.task.id'')]
     \<lparr>Region = ''us-west-2'', MaxRetries = 1,
      ConfigLogGroupName = ''/aws/ecs/containerinsights/{ClusterName}/performance'',
      ConfigLogStreamName = ''{TaskId}'', OutputDestination = ''cloudwatch''\<rparr>
     [(''aws.ecs.cluster.name'', ''test-cluster-name''), (''aws.ecs.task.id'', ''test-task-id'')] =
     Inr \<lparr>LogGroupName = ''/aws/ecs/containerinsights/test-cluster-name/performance'',
          LogStreamName = ''test-task-id''\<rparr> \<and>
   registeredKeys (snd (pushMetricsData mockOps
      [(''ClusterName'', ''aws.ecs.cluster.name''), (''TaskId'', ''aws.ecs.task.id'')]
      [\<lparr>attributes = [(''aws.ecs.cluster.name'', ''test-cluster-name''),
                       (''aws.ecs.task.id'', ''test-task-id'')],
        logEvents = [''metric_1=100 metric_2=4'']\<rparr>]
      (newEmfExporter
        \<lparr>Region = ''us-west-2'', MaxRetries = 1,
         ConfigLogGroupName = ''/aws/ecs/containerinsights/{ClusterName}/performance'',
         ConfigLogStreamName = ''{TaskId}'', OutputDestination = ''cloudwatch''\<rparr>))) =
     [\<lparr>LogGroupName = ''/aws/ecs/containerinsights/test-cluster-name/performance'',
       LogStreamName = ''test-task-id''\<rparr>]"
  using push_registers_resolved_key
    [of "[(''ClusterName'', ''aws.ecs.cluster.name''), (''TaskId'', ''aws.ecs.task.id'')]"
        "\<lparr>attributes = [(''aws.ecs.cluster.name'', ''test-cluster-name''),
                         (''aws.ecs.task.id'', ''test-task-id'')],
          logEvents = [''metric_1=100 metric_2=4'']\<rparr>"
        "newEmfExporter
          \<lparr>Region = ''us-west-2'', MaxRetries = 1,
           ConfigLogGroupName = ''/aws/ecs/containerinsights/{ClusterName}/performance'',
           ConfigLogStreamName = ''{TaskId}'', OutputDestination = ''cloudwatch''\<rparr>"
        mockOps]
  by (simp add: newEmfExporter_def registeredKeys_def)

subsection \<open>Three pushes to a pusher that fails once\<close>




end
